theory Spec2Isabelle
  imports Complex_Main
begin

section \<open>Shared data model of the two extraction servers\<close>

text \<open>
  Both servers (\<^verbatim>\<open>docker/pdf-extract-kit/api_server.py\<close> and
  \<^verbatim>\<open>scripts/pdf_extract_server.py\<close>) build the same result dictionary. Python
  exceptions are values of \<open>error\<close>; a call that may raise returns \<open>error + 'a\<close>
  with \<open>Inl\<close> the exception. Coordinates and confidences are Python floats, taken
  here as reals (NaN and the infinities are left out). A Python \<^verbatim>\<open>str\<close> is a
  \<open>string\<close>, one \<open>char\<close> standing for one character of the Python string.
\<close>

datatype error =
    AttributeError string
  | IndexError string
  | Exception string

fun str_error :: "error \<Rightarrow> string" where
  "str_error (AttributeError m) = m"
| "str_error (IndexError m) = m"
| "str_error (Exception m) = m"

type_synonym bbox = "real list"

text \<open>\<^verbatim>\<open>bbox[i]\<close>: an index past the end raises IndexError.\<close>

definition getitem :: "'a list \<Rightarrow> nat \<Rightarrow> error + 'a" where
  "getitem xs i =
     (if i < length xs then Inr (xs ! i) else Inl (IndexError ''list index out of range''))"

text \<open>\<^verbatim>\<open>int(x)\<close> on a float truncates toward zero.\<close>

definition py_int :: "real \<Rightarrow> int" where
  "py_int x = (if 0 \<le> x then \<lfloor>x\<rfloor> else \<lceil>x\<rceil>)"

text \<open>\<^verbatim>\<open>str(n)\<close> on integers, as the f-strings format them.\<close>

definition digit_char :: "nat \<Rightarrow> char" where
  "digit_char d = ''0123456789'' ! d"

function str_nat :: "nat \<Rightarrow> string" where
  "str_nat n = (if n < 10 then [digit_char n] else str_nat (n div 10) @ [digit_char (n mod 10)])"
  by pat_completeness auto
termination
  by (relation "measure (\<lambda>n. n)") auto

definition str_int :: "int \<Rightarrow> string" where
  "str_int i = (if i < 0 then CHR ''-'' # str_nat (nat (- i)) else str_nat (nat i))"

record metadata =
  totalPages :: "nat option"
  totalTables :: "nat option"
  totalImages :: "nat option"
  totalFormulas :: "nat option"
  textLength :: "nat option"
  extractionMethod :: "string option"
  meta_error :: "string option"

text \<open>The empty dictionary \<^verbatim>\<open>{}\<close> the result starts with.\<close>

definition empty_metadata :: metadata where
  "empty_metadata =
     \<lparr>totalPages = None, totalTables = None, totalImages = None, totalFormulas = None,
      textLength = None, extractionMethod = None, meta_error = None\<rparr>"

record elem_data =
  elem_type :: string
  elem_bbox :: bbox
  elem_confidence :: real
  elem_content :: "string option"

record page_data =
  pageNumber :: nat
  page_width :: real
  page_height :: real
  elements :: "elem_data list"

record table_data =
  table_id :: string
  table_bbox :: bbox
  table_html :: string
  table_markdown :: string
  table_rows_data :: "string list list"
  table_headers :: "string list"
  table_confidence :: real
  table_pageNumber :: "nat option"
  table_rows :: "nat option"
  table_columns :: "nat option"

record formula_data =
  formula_id :: string
  formula_bbox :: bbox
  formula_type :: string
  formula_latex :: string
  formula_confidence :: real
  formula_pageNumber :: "nat option"

record image_data =
  image_id :: string
  image_bbox :: bbox
  image_base64 :: string
  image_type :: string
  image_confidence :: real
  image_pageNumber :: "nat option"
  image_width :: "nat option"
  image_height :: "nat option"

record result =
  r_text :: string
  r_pages :: "page_data list"
  r_tables :: "table_data list"
  r_images :: "image_data list"
  r_formulas :: "formula_data list"
  r_metadata :: metadata

definition empty_result :: result where
  "empty_result =
     \<lparr>r_text = [], r_pages = [], r_tables = [], r_images = [], r_formulas = [],
      r_metadata = empty_metadata\<rparr>"

text \<open>
  The metadata block both servers build after the loop: every count is the length of
  the collection at that moment.
\<close>

definition count_metadata :: "result \<Rightarrow> string option \<Rightarrow> metadata" where
  "count_metadata r m =
     \<lparr>totalPages = Some (length (r_pages r)),
      totalTables = Some (length (r_tables r)),
      totalImages = Some (length (r_images r)),
      totalFormulas = Some (length (r_formulas r)),
      textLength = Some (length (r_text r)),
      extractionMethod = m,
      meta_error = None\<rparr>"

record flags =
  extract_text :: bool
  extract_tables :: bool
  extract_images :: bool
  extract_formulas :: bool

section \<open>The model-based server: api\_server.py\<close>

text \<open>
  What the layout detector hands back for one element and one page. The confidence
  key may be missing (\<^verbatim>\<open>element.get('confidence', 1.0)\<close>).
\<close>

record layout_element =
  le_type :: string
  le_bbox :: bbox
  le_confidence :: "real option"

record page_layout =
  pl_width :: real
  pl_height :: real
  pl_elements :: "layout_element list"

text \<open>The dictionaries of the table and formula models; every key is read with a default.\<close>

record table_result =
  tr_html :: "string option"
  tr_markdown :: "string option"
  tr_data :: "string list list option"
  tr_headers :: "string list option"
  tr_confidence :: "real option"

record formula_result =
  fr_latex :: "string option"
  fr_confidence :: "real option"

text \<open>
  The four global models, \<open>None\<close> until loaded, and the PyMuPDF rendering that
  \<^verbatim>\<open>extract_image\<close> performs inside its \<^verbatim>\<open>try\<close> (open, clip at zoom 2, PNG bytes,
  base64 text), which may raise.
\<close>

record env =
  layout_model :: "(string \<Rightarrow> error + page_layout list) option"
  table_model :: "(string \<Rightarrow> nat \<Rightarrow> bbox \<Rightarrow> error + table_result) option"
  formula_model :: "(string \<Rightarrow> nat \<Rightarrow> bbox \<Rightarrow> error + formula_result) option"
  ocr_model :: "(string \<Rightarrow> nat \<Rightarrow> bbox \<Rightarrow> error + string) option"
  fitz_render :: "string \<Rightarrow> nat \<Rightarrow> bbox \<Rightarrow> error + string"

definition none_attr :: "string \<Rightarrow> error" where
  "none_attr a = AttributeError (''NoneType object has no attribute '' @ a)"

text \<open>\<^verbatim>\<open>f"{kind}_{page_num}_{int(bbox[0])}_{int(bbox[1])}"\<close>\<close>

definition make_id :: "string \<Rightarrow> nat \<Rightarrow> bbox \<Rightarrow> error + string" where
  "make_id kind page_num b =
     (case getitem b 0 of
        Inl e \<Rightarrow> Inl e
      | Inr x0 \<Rightarrow>
          (case getitem b 1 of
             Inl e \<Rightarrow> Inl e
           | Inr y0 \<Rightarrow>
               Inr (kind @ ''_'' @ str_nat page_num @ ''_'' @ str_int (py_int x0)
                    @ ''_'' @ str_int (py_int y0))))"

definition get_default :: "'a option \<Rightarrow> 'a \<Rightarrow> 'a" where
  "get_default v d = (case v of None \<Rightarrow> d | Some x \<Rightarrow> x)"

definition extract_table_try :: "env \<Rightarrow> string \<Rightarrow> nat \<Rightarrow> bbox \<Rightarrow> error + table_data" where
  "extract_table_try ev pdf_path page_num b =
     (case table_model ev of
        None \<Rightarrow> Inl (none_attr ''extract'')
      | Some m \<Rightarrow>
          (case m pdf_path page_num b of
             Inl e \<Rightarrow> Inl e
           | Inr table_result \<Rightarrow>
               (case make_id ''table'' page_num b of
                  Inl e \<Rightarrow> Inl e
                | Inr i \<Rightarrow>
                    Inr \<lparr>table_id = i, table_bbox = b,
                         table_html = get_default (tr_html table_result) [],
                         table_markdown = get_default (tr_markdown table_result) [],
                         table_rows_data = get_default (tr_data table_result) [],
                         table_headers = get_default (tr_headers table_result) [],
                         table_confidence = get_default (tr_confidence table_result) 0.9,
                         table_pageNumber = None, table_rows = None,
                         table_columns = None\<rparr>)))"

definition extract_table :: "env \<Rightarrow> string \<Rightarrow> nat \<Rightarrow> bbox \<Rightarrow> error + table_data" where
  "extract_table ev pdf_path page_num b =
     (case extract_table_try ev pdf_path page_num b of
        Inr t \<Rightarrow> Inr t
      | Inl _ \<Rightarrow>
          (case make_id ''table'' page_num b of
             Inl e \<Rightarrow> Inl e
           | Inr i \<Rightarrow>
               Inr \<lparr>table_id = i, table_bbox = b, table_html = [], table_markdown = [],
                    table_rows_data = [], table_headers = [], table_confidence = 0,
                    table_pageNumber = None, table_rows = None, table_columns = None\<rparr>))"

definition extract_formula_try :: "env \<Rightarrow> string \<Rightarrow> nat \<Rightarrow> bbox \<Rightarrow> error + formula_data" where
  "extract_formula_try ev pdf_path page_num b =
     (case formula_model ev of
        None \<Rightarrow> Inl (none_attr ''extract'')
      | Some m \<Rightarrow>
          (case m pdf_path page_num b of
             Inl e \<Rightarrow> Inl e
           | Inr formula_result \<Rightarrow>
               (case make_id ''formula'' page_num b of
                  Inl e \<Rightarrow> Inl e
                | Inr i \<Rightarrow>
                    (case getitem b 3 of
                       Inl e \<Rightarrow> Inl e
                     | Inr y1 \<Rightarrow>
                         (case getitem b 1 of
                            Inl e \<Rightarrow> Inl e
                          | Inr y0 \<Rightarrow>
                              Inr \<lparr>formula_id = i, formula_bbox = b,
                                   formula_type = (if y1 - y0 > 50 then ''block'' else ''inline''),
                                   formula_latex = get_default (fr_latex formula_result) [],
                                   formula_confidence =
                                     get_default (fr_confidence formula_result) 0.9,
                                   formula_pageNumber = None\<rparr>)))))"

definition extract_formula :: "env \<Rightarrow> string \<Rightarrow> nat \<Rightarrow> bbox \<Rightarrow> error + formula_data" where
  "extract_formula ev pdf_path page_num b =
     (case extract_formula_try ev pdf_path page_num b of
        Inr f \<Rightarrow> Inr f
      | Inl _ \<Rightarrow>
          (case make_id ''formula'' page_num b of
             Inl e \<Rightarrow> Inl e
           | Inr i \<Rightarrow>
               Inr \<lparr>formula_id = i, formula_bbox = b, formula_type = ''unknown'',
                    formula_latex = [], formula_confidence = 0,
                    formula_pageNumber = None\<rparr>))"

definition extract_image_try :: "env \<Rightarrow> string \<Rightarrow> nat \<Rightarrow> bbox \<Rightarrow> error + image_data" where
  "extract_image_try ev pdf_path page_num b =
     (case fitz_render ev pdf_path page_num b of
        Inl e \<Rightarrow> Inl e
      | Inr img_base64 \<Rightarrow>
          (case make_id ''image'' page_num b of
             Inl e \<Rightarrow> Inl e
           | Inr i \<Rightarrow>
               Inr \<lparr>image_id = i, image_bbox = b, image_base64 = img_base64,
                    image_type = ''figure'', image_confidence = 0.95,
                    image_pageNumber = None, image_width = None, image_height = None\<rparr>))"

definition extract_image :: "env \<Rightarrow> string \<Rightarrow> nat \<Rightarrow> bbox \<Rightarrow> error + image_data" where
  "extract_image ev pdf_path page_num b =
     (case extract_image_try ev pdf_path page_num b of
        Inr f \<Rightarrow> Inr f
      | Inl _ \<Rightarrow>
          (case make_id ''image'' page_num b of
             Inl e \<Rightarrow> Inl e
           | Inr i \<Rightarrow>
               Inr \<lparr>image_id = i, image_bbox = b, image_base64 = [],
                    image_type = ''unknown'', image_confidence = 0,
                    image_pageNumber = None, image_width = None, image_height = None\<rparr>))"

text \<open>
  The element loop of \<^verbatim>\<open>process_pdf\<close>. The state is the result under construction
  and the element dictionary \<^verbatim>\<open>elem_data\<close>; the four \<^verbatim>\<open>if\<close> statements run one after
  another, and an exception of any of them leaves the loop.
\<close>

definition new_elem :: "layout_element \<Rightarrow> elem_data" where
  "new_elem element =
     \<lparr>elem_type = le_type element, elem_bbox = le_bbox element,
      elem_confidence = get_default (le_confidence element) 1,
      elem_content = None\<rparr>"

definition step_text ::
  "env \<Rightarrow> flags \<Rightarrow> string \<Rightarrow> nat \<Rightarrow> layout_element \<Rightarrow> result \<times> elem_data
     \<Rightarrow> error + result \<times> elem_data" where
  "step_text ev fl pdf_path page_num element st =
     (if extract_text fl \<and> le_type element \<in> set [''text'', ''title'', ''header''] then
        (case ocr_model ev of
           None \<Rightarrow> Inr st
         | Some ocr \<Rightarrow>
             (case ocr pdf_path page_num (le_bbox element) of
                Inl e \<Rightarrow> Inl e
              | Inr text_content \<Rightarrow>
                  Inr ((fst st)\<lparr>r_text := r_text (fst st) @ text_content @ '' ''\<rparr>,
                       (snd st)\<lparr>elem_content := Some text_content\<rparr>)))
      else Inr st)"

definition step_table ::
  "env \<Rightarrow> flags \<Rightarrow> string \<Rightarrow> nat \<Rightarrow> layout_element \<Rightarrow> result \<times> elem_data
     \<Rightarrow> error + result \<times> elem_data" where
  "step_table ev fl pdf_path page_num element st =
     (if extract_tables fl \<and> le_type element = ''table'' then
        (case extract_table ev pdf_path page_num (le_bbox element) of
           Inl e \<Rightarrow> Inl e
         | Inr table_data \<Rightarrow>
             Inr ((fst st)\<lparr>r_tables :=
                     r_tables (fst st) @ [table_data\<lparr>table_pageNumber := Some page_num\<rparr>]\<rparr>,
                  (snd st)\<lparr>elem_content :=
                     Some (''Table with '' @ str_nat (length (table_rows_data table_data))
                           @ '' rows'')\<rparr>))
      else Inr st)"

definition step_formula ::
  "env \<Rightarrow> flags \<Rightarrow> string \<Rightarrow> nat \<Rightarrow> layout_element \<Rightarrow> result \<times> elem_data
     \<Rightarrow> error + result \<times> elem_data" where
  "step_formula ev fl pdf_path page_num element st =
     (if extract_formulas fl \<and> le_type element = ''formula'' then
        (case extract_formula ev pdf_path page_num (le_bbox element) of
           Inl e \<Rightarrow> Inl e
         | Inr formula_data \<Rightarrow>
             Inr ((fst st)\<lparr>r_formulas :=
                     r_formulas (fst st)
                     @ [formula_data\<lparr>formula_pageNumber := Some page_num\<rparr>]\<rparr>,
                  (snd st)\<lparr>elem_content := Some (formula_latex formula_data)\<rparr>))
      else Inr st)"

definition step_image ::
  "env \<Rightarrow> flags \<Rightarrow> string \<Rightarrow> nat \<Rightarrow> layout_element \<Rightarrow> result \<times> elem_data
     \<Rightarrow> error + result \<times> elem_data" where
  "step_image ev fl pdf_path page_num element st =
     (if extract_images fl \<and> le_type element \<in> set [''image'', ''figure''] then
        (case extract_image ev pdf_path page_num (le_bbox element) of
           Inl e \<Rightarrow> Inl e
         | Inr image_data \<Rightarrow>
             Inr ((fst st)\<lparr>r_images :=
                     r_images (fst st) @ [image_data\<lparr>image_pageNumber := Some page_num\<rparr>]\<rparr>,
                  (snd st)\<lparr>elem_content := Some ''Image''\<rparr>))
      else Inr st)"

definition process_element ::
  "env \<Rightarrow> flags \<Rightarrow> string \<Rightarrow> nat \<Rightarrow> result \<Rightarrow> layout_element \<Rightarrow> error + result \<times> elem_data" where
  "process_element ev fl pdf_path page_num res element =
     (case step_text ev fl pdf_path page_num element (res, new_elem element) of
        Inl e \<Rightarrow> Inl e
      | Inr s1 \<Rightarrow>
          (case step_table ev fl pdf_path page_num element s1 of
             Inl e \<Rightarrow> Inl e
           | Inr s2 \<Rightarrow>
               (case step_formula ev fl pdf_path page_num element s2 of
                  Inl e \<Rightarrow> Inl e
                | Inr s3 \<Rightarrow> step_image ev fl pdf_path page_num element s3)))"

text \<open>\<^verbatim>\<open>for element in page_layout['elements']\<close>, appending to \<^verbatim>\<open>page_data['elements']\<close>.\<close>

fun process_elements ::
  "env \<Rightarrow> flags \<Rightarrow> string \<Rightarrow> nat \<Rightarrow> layout_element list \<Rightarrow> result \<times> elem_data list
     \<Rightarrow> error + result \<times> elem_data list" where
  "process_elements ev fl pdf_path page_num [] st = Inr st"
| "process_elements ev fl pdf_path page_num (element # rest) st =
     (case process_element ev fl pdf_path page_num (fst st) element of
        Inl e \<Rightarrow> Inl e
      | Inr (res, elem) \<Rightarrow>
          process_elements ev fl pdf_path page_num rest (res, snd st @ [elem]))"

text \<open>\<^verbatim>\<open>for page_num, page_layout in enumerate(layout_results['pages'], 1)\<close>\<close>

fun process_pages ::
  "env \<Rightarrow> flags \<Rightarrow> string \<Rightarrow> nat \<Rightarrow> page_layout list \<Rightarrow> result \<Rightarrow> error + result" where
  "process_pages ev fl pdf_path page_num [] res = Inr res"
| "process_pages ev fl pdf_path page_num (page_layout # rest) res =
     (case process_elements ev fl pdf_path page_num (pl_elements page_layout) (res, []) of
        Inl e \<Rightarrow> Inl e
      | Inr (res', elems) \<Rightarrow>
          process_pages ev fl pdf_path (Suc page_num) rest
            (res'\<lparr>r_pages := r_pages res'
                    @ [\<lparr>pageNumber = page_num, page_width = pl_width page_layout,
                         page_height = pl_height page_layout, elements = elems\<rparr>]\<rparr>))"

text \<open>
  \<^verbatim>\<open>process_pdf\<close>: the \<^verbatim>\<open>except\<close> clause logs and re-raises, so every exception of
  the body is the function's own.
\<close>

definition process_pdf :: "env \<Rightarrow> string \<Rightarrow> flags \<Rightarrow> error + result" where
  "process_pdf ev pdf_path fl =
     (case layout_model ev of
        None \<Rightarrow> Inl (none_attr ''detect'')
      | Some detect \<Rightarrow>
          (case detect pdf_path of
             Inl e \<Rightarrow> Inl e
           | Inr layout_pages \<Rightarrow>
               (case process_pages ev fl pdf_path 1 layout_pages empty_result of
                  Inl e \<Rightarrow> Inl e
                | Inr res \<Rightarrow> Inr (res\<lparr>r_metadata := count_metadata res None\<rparr>))))"

section \<open>The local server: pdf\_extract\_server.py\<close>

text \<open>
  What PyMuPDF hands back, as data. Every call of the library that may raise carries
  its exception: opening the file, loading a page, reading its text, its blocks, its
  images and its tables, building a pixmap, exporting it, extracting a table. A pixmap's
  \<open>pix_png_base64\<close> is \<^verbatim>\<open>base64.b64encode(pix.tobytes("png")).decode('utf-8')\<close>.
  A block has lines only when it is a text block; a line is the list of its spans' texts.
  \<open>tbl_to_html\<close> is \<open>None\<close> when the table object has no \<^verbatim>\<open>to_pandas\<close>.
\<close>

record fitz_pixmap =
  pix_n :: int
  pix_alpha :: int
  pix_width :: nat
  pix_height :: nat
  pix_png_base64 :: "error + string"

record fitz_block =
  block_lines :: "string list list option"
  block_bbox :: bbox

record fitz_table =
  tbl_extract :: "error + string list list"
  tbl_bbox :: bbox
  tbl_to_html :: "(error + string) option"

record fitz_page =
  pg_get_text :: "error + string"
  pg_blocks :: "error + fitz_block list"
  pg_images :: "error + (error + fitz_pixmap) list"
  pg_tables :: "error + fitz_table list"
  pg_rect_width :: real
  pg_rect_height :: real

type_synonym fitz_doc = "(error + fitz_page) list"

type_synonym fitz = "string \<Rightarrow> error + fitz_doc"

text \<open>
  \<^verbatim>\<open>' '.join(xs)\<close> and \<^verbatim>\<open>s.strip()\<close>. A \<open>char\<close> stands for a code point below 256; the
  white space of \<^verbatim>\<open>str.isspace\<close> in that range is U+0009 to U+000D, U+001C to U+0020,
  U+0085 and U+00A0.
\<close>

fun join_space :: "string list \<Rightarrow> string" where
  "join_space [] = []"
| "join_space [x] = x"
| "join_space (x # y # ys) = x @ '' '' @ join_space (y # ys)"

definition is_space :: "char \<Rightarrow> bool" where
  "is_space c =
     (let n = of_char c :: nat
      in (9 \<le> n \<and> n \<le> 13) \<or> (28 \<le> n \<and> n \<le> 32) \<or> n = 133 \<or> n = 160)"

definition strip :: "string \<Rightarrow> string" where
  "strip s = rev (dropWhile is_space (rev (dropWhile is_space s)))"

text \<open>The text lines of one block, then of all blocks of a page.\<close>

definition block_elements :: "fitz_block \<Rightarrow> elem_data list" where
  "block_elements block =
     (case block_lines block of
        None \<Rightarrow> []
      | Some lines \<Rightarrow>
          concat (map (\<lambda>spans.
            (let line_text = join_space spans in
             if strip line_text \<noteq> [] then
               [\<lparr>elem_type = ''text'', elem_bbox = block_bbox block, elem_confidence = 0.9,
                 elem_content = Some (strip line_text)\<rparr>]
             else [])) lines))"

definition text_elements :: "fitz_block list \<Rightarrow> elem_data list" where
  "text_elements blocks = concat (map block_elements blocks)"

text \<open>
  \<^verbatim>\<open>for img_index, img in enumerate(image_list)\<close>: the state is the images of the
  result and the elements of the page.
\<close>

fun image_loop ::
  "nat \<Rightarrow> nat \<Rightarrow> (error + fitz_pixmap) list \<Rightarrow> image_data list \<times> elem_data list
     \<Rightarrow> error + image_data list \<times> elem_data list" where
  "image_loop page_num img_index [] st = Inr st"
| "image_loop page_num img_index (img # rest) st =
     (case img of
        Inl e \<Rightarrow> Inl e
      | Inr pix \<Rightarrow>
          (if pix_n pix - pix_alpha pix < 4 then
             (case pix_png_base64 pix of
                Inl e \<Rightarrow> Inl e
              | Inr img_base64 \<Rightarrow>
                  image_loop page_num (Suc img_index) rest
                    (fst st @ [\<lparr>image_id = ''img_'' @ str_nat page_num @ ''_'' @ str_nat img_index,
                                image_bbox = [0, 0, real (pix_width pix), real (pix_height pix)],
                                image_base64 = img_base64, image_type = ''photo'',
                                image_confidence = 0.8,
                                image_pageNumber = Some (page_num + 1),
                                image_width = Some (pix_width pix),
                                image_height = Some (pix_height pix)\<rparr>],
                     snd st @ [\<lparr>elem_type = ''image'',
                                elem_bbox = [0, 0, real (pix_width pix), real (pix_height pix)],
                                elem_confidence = 0.8, elem_content = Some ''Image''\<rparr>]))
           else image_loop page_num (Suc img_index) rest st))"

text \<open>The body of the \<^verbatim>\<open>try\<close> around one table; its exception only skips the table.\<close>

definition table_try :: "nat \<Rightarrow> nat \<Rightarrow> fitz_table \<Rightarrow> error + table_data \<times> elem_data" where
  "table_try page_num table_index tbl =
     (case tbl_extract tbl of
        Inl e \<Rightarrow> Inl e
      | Inr table_data \<Rightarrow>
          (let headers = (if table_data \<noteq> [] then hd table_data else []);
               data = (if length table_data > 1 then tl table_data else [])
           in case (case tbl_to_html tbl of None \<Rightarrow> Inr [] | Some h \<Rightarrow> h) of
                Inl e \<Rightarrow> Inl e
              | Inr html \<Rightarrow>
                  Inr (\<lparr>table_id = ''table_'' @ str_nat page_num @ ''_'' @ str_nat table_index,
                        table_bbox = tbl_bbox tbl, table_html = html, table_markdown = [],
                        table_rows_data = data, table_headers = headers,
                        table_confidence = 0.8, table_pageNumber = Some (page_num + 1),
                        table_rows = Some (length data),
                        table_columns = Some (length headers)\<rparr>,
                       \<lparr>elem_type = ''table'', elem_bbox = tbl_bbox tbl, elem_confidence = 0.8,
                        elem_content =
                          Some (''Table with '' @ str_nat (length data) @ '' rows'')\<rparr>)))"

fun table_loop ::
  "nat \<Rightarrow> nat \<Rightarrow> fitz_table list \<Rightarrow> table_data list \<times> elem_data list
     \<Rightarrow> table_data list \<times> elem_data list" where
  "table_loop page_num table_index [] st = st"
| "table_loop page_num table_index (tbl # rest) st =
     (case table_try page_num table_index tbl of
        Inl e \<Rightarrow> table_loop page_num (Suc table_index) rest st
      | Inr (t, el) \<Rightarrow>
          table_loop page_num (Suc table_index) rest (fst st @ [t], snd st @ [el]))"

text \<open>One iteration of \<^verbatim>\<open>for page_num in range(len(doc))\<close>.\<close>

definition basic_page :: "nat \<Rightarrow> error + fitz_page \<Rightarrow> result \<Rightarrow> error + result" where
  "basic_page page_num loaded res =
     (case loaded of
        Inl e \<Rightarrow> Inl e
      | Inr page \<Rightarrow>
     (case pg_get_text page of
        Inl e \<Rightarrow> Inl e
      | Inr txt \<Rightarrow>
     (case pg_blocks page of
        Inl e \<Rightarrow> Inl e
      | Inr blocks \<Rightarrow>
     (case pg_images page of
        Inl e \<Rightarrow> Inl e
      | Inr image_list \<Rightarrow>
     (case image_loop page_num 0 image_list (r_images res, text_elements blocks) of
        Inl e \<Rightarrow> Inl e
      | Inr (imgs, elems1) \<Rightarrow>
     (case pg_tables page of
        Inl e \<Rightarrow> Inl e
      | Inr tbls \<Rightarrow>
          (let (tabs, elems2) = table_loop page_num 0 tbls (r_tables res, elems1)
           in Inr (res\<lparr>r_text := r_text res @ txt @ [CHR 0x0A],
                       r_images := imgs,
                       r_tables := tabs,
                       r_pages := r_pages res
                         @ [\<lparr>pageNumber = page_num + 1, page_width = pg_rect_width page,
                              page_height = pg_rect_height page,
                              elements = elems2\<rparr>]\<rparr>))))))))"

fun basic_pages :: "nat \<Rightarrow> fitz_doc \<Rightarrow> result \<Rightarrow> error + result" where
  "basic_pages page_num [] res = Inr res"
| "basic_pages page_num (loaded # rest) res =
     (case basic_page page_num loaded res of
        Inl e \<Rightarrow> Inl e
      | Inr res' \<Rightarrow> basic_pages (Suc page_num) rest res')"

text \<open>The body of the outer \<^verbatim>\<open>try\<close> of \<^verbatim>\<open>extract_with_basic_tools\<close>.\<close>

definition basic_try :: "fitz \<Rightarrow> string \<Rightarrow> error + result" where
  "basic_try fitz_open pdf_path =
     (case fitz_open pdf_path of
        Inl e \<Rightarrow> Inl e
      | Inr doc \<Rightarrow>
          (case basic_pages 0 doc empty_result of
             Inl e \<Rightarrow> Inl e
           | Inr res \<Rightarrow>
               Inr (res\<lparr>r_metadata := count_metadata res (Some ''PyMuPDF-basic'')\<rparr>)))"

text \<open>The \<^verbatim>\<open>except\<close> clause: the minimal result.\<close>

definition minimal_result :: "error \<Rightarrow> result" where
  "minimal_result e =
     \<lparr>r_text = ''Extraction failed'', r_pages = [], r_tables = [], r_images = [],
      r_formulas = [],
      r_metadata = empty_metadata\<lparr>meta_error := Some (str_error e)\<rparr>\<rparr>"

definition extract_with_basic_tools :: "fitz \<Rightarrow> string \<Rightarrow> result" where
  "extract_with_basic_tools fitz_open pdf_path =
     (case basic_try fitz_open pdf_path of
        Inr res \<Rightarrow> res
      | Inl e \<Rightarrow> minimal_result e)"

text \<open>\<^verbatim>\<open>extract_with_pdf_extract_kit\<close> logs one line and calls the basic extraction.\<close>

definition extract_with_pdf_extract_kit :: "fitz \<Rightarrow> string \<Rightarrow> result" where
  "extract_with_pdf_extract_kit fitz_open pdf_path = extract_with_basic_tools fitz_open pdf_path"

text \<open>
  \<^verbatim>\<open>extract_document\<close> of the local server, from the saved temporary file on: the four
  flags are read from the form, the strategy is chosen by \<^verbatim>\<open>models_loaded\<close>, and the
  result is answered as JSON with status 200; an exception is answered with status 500.
\<close>

datatype http_response = Json200 result | Error500 string

definition extract_document :: "fitz \<Rightarrow> bool \<Rightarrow> flags \<Rightarrow> string \<Rightarrow> http_response" where
  "extract_document fitz_open models_loaded fl temp_path =
     (let result = (if models_loaded then extract_with_pdf_extract_kit fitz_open temp_path
                    else extract_with_basic_tools fitz_open temp_path)
      in Json200 result)"

section \<open>Projections and concrete inputs used by the theorems\<close>

text \<open>The part of an element, and of a page, that does not depend on the extraction flags.\<close>

definition layout_core :: "layout_element \<Rightarrow> string \<times> bbox \<times> real" where
  "layout_core e = (le_type e, le_bbox e, get_default (le_confidence e) 1)"

definition elem_core :: "elem_data \<Rightarrow> string \<times> bbox \<times> real" where
  "elem_core e = (elem_type e, elem_bbox e, elem_confidence e)"

definition page_core :: "page_data \<Rightarrow> real \<times> real \<times> (string \<times> bbox \<times> real) list" where
  "page_core pd = (page_width pd, page_height pd, map elem_core (elements pd))"

definition page_layout_core :: "page_layout \<Rightarrow> real \<times> real \<times> (string \<times> bbox \<times> real) list" where
  "page_layout_core pl = (pl_width pl, pl_height pl, map layout_core (pl_elements pl))"





text \<open>
  The two-page scenario: page 1 holds one text element read as \<open>Hello\<close>, page 2 one
  table with headers A, B and the row 1, 2. The formula model and the image rendering
  of this environment raise.
\<close>

definition scenario_layout :: "page_layout list" where
  "scenario_layout =
     [\<lparr>pl_width = 612, pl_height = 792,
       pl_elements =
         [\<lparr>le_type = ''text'', le_bbox = [0, 0, 100, 20], le_confidence = Some 0.9\<rparr>]\<rparr>,
      \<lparr>pl_width = 612, pl_height = 792,
       pl_elements =
         [\<lparr>le_type = ''table'', le_bbox = [10, 30, 200, 90], le_confidence = None\<rparr>]\<rparr>]"

definition scenario_env :: env where
  "scenario_env =
     \<lparr>layout_model = Some (\<lambda>p. Inr scenario_layout),
      table_model = Some (\<lambda>p n b. Inr \<lparr>tr_html = None, tr_markdown = None,
                        tr_data = Some [[''1'', ''2'']], tr_headers = Some [''A'', ''B''],
                        tr_confidence = None\<rparr>),
      formula_model = Some (\<lambda>p n b. Inl (Exception ''formula model failed'')),
      ocr_model = Some (\<lambda>p n b. Inr ''Hello''),
      fitz_render = (\<lambda>p n b. Inl (Exception ''cannot open''))\<rparr>"

definition all_flags :: flags where
  "all_flags =
     \<lparr>extract_text = True, extract_tables = True, extract_images = True,
      extract_formulas = True\<rparr>"

definition scenario_result :: result where
  "scenario_result =
     \<lparr>r_text = ''Hello '',
      r_pages =
        [\<lparr>pageNumber = 1, page_width = 612, page_height = 792,
          elements =
            [\<lparr>elem_type = ''text'', elem_bbox = [0, 0, 100, 20], elem_confidence = 0.9,
              elem_content = Some ''Hello''\<rparr>]\<rparr>,
         \<lparr>pageNumber = 2, page_width = 612, page_height = 792,
          elements =
            [\<lparr>elem_type = ''table'', elem_bbox = [10, 30, 200, 90], elem_confidence = 1,
              elem_content = Some ''Table with 1 rows''\<rparr>]\<rparr>],
      r_tables =
        [\<lparr>table_id = ''table_2_10_30'', table_bbox = [10, 30, 200, 90], table_html = [],
          table_markdown = [], table_rows_data = [[''1'', ''2'']],
          table_headers = [''A'', ''B''], table_confidence = 0.9,
          table_pageNumber = Some 2, table_rows = None, table_columns = None\<rparr>],
      r_images = [], r_formulas = [],
      r_metadata =
        \<lparr>totalPages = Some 2, totalTables = Some 1, totalImages = Some 0,
         totalFormulas = Some 0, textLength = Some 6, extractionMethod = None,
         meta_error = None\<rparr>\<rparr>"

text \<open>The same environment with an OCR model that raises on every region.\<close>

definition ocr_failing_env :: env where
  "ocr_failing_env = scenario_env\<lparr>ocr_model := Some (\<lambda>p n b. Inl (Exception ''ocr failed''))\<rparr>"

text \<open>
  Documents as PyMuPDF presents them to the local server: a page with the text
  \<open>Hello\<close>, one RGB image and one table, followed by an empty page; a file that cannot be
  opened; a document whose second page cannot be loaded.
\<close>

definition hello_page :: fitz_page where
  "hello_page =
     \<lparr>pg_get_text = Inr ''Hello'',
      pg_blocks = Inr [\<lparr>block_lines = Some [['' Hello '']], block_bbox = [72, 72, 100, 84]\<rparr>],
      pg_images = Inr [Inr \<lparr>pix_n = 3, pix_alpha = 0, pix_width = 4, pix_height = 5,
                            pix_png_base64 = Inr ''iVBORw0KGgo=''\<rparr>],
      pg_tables = Inr [\<lparr>tbl_extract = Inr [[''A'', ''B''], [''1'', ''2'']],
                        tbl_bbox = [10, 30, 200, 90], tbl_to_html = None\<rparr>],
      pg_rect_width = 612, pg_rect_height = 792\<rparr>"

definition blank_page :: fitz_page where
  "blank_page =
     \<lparr>pg_get_text = Inr [], pg_blocks = Inr [], pg_images = Inr [], pg_tables = Inr [],
      pg_rect_width = 612, pg_rect_height = 792\<rparr>"

definition hello_fitz :: fitz where
  "hello_fitz = (\<lambda>p. Inr [Inr hello_page, Inr blank_page])"

definition corrupt_fitz :: fitz where
  "corrupt_fitz = (\<lambda>p. Inl (Exception ''cannot open broken document''))"

definition page_failing_fitz :: fitz where
  "page_failing_fitz = (\<lambda>p. Inr [Inr hello_page, Inl (Exception ''bad page'')])"

definition no_images_flags :: flags where
  "no_images_flags = all_flags\<lparr>extract_images := False\<rparr>"

definition hello_result :: result where
  "hello_result =
     \<lparr>r_text = ''Hello'' @ [CHR 0x0A, CHR 0x0A],
      r_pages =
        [\<lparr>pageNumber = 1, page_width = 612, page_height = 792,
          elements =
            [\<lparr>elem_type = ''text'', elem_bbox = [72, 72, 100, 84], elem_confidence = 0.9,
              elem_content = Some ''Hello''\<rparr>,
             \<lparr>elem_type = ''image'', elem_bbox = [0, 0, 4, 5], elem_confidence = 0.8,
              elem_content = Some ''Image''\<rparr>,
             \<lparr>elem_type = ''table'', elem_bbox = [10, 30, 200, 90], elem_confidence = 0.8,
              elem_content = Some ''Table with 1 rows''\<rparr>]\<rparr>,
         \<lparr>pageNumber = 2, page_width = 612, page_height = 792, elements = []\<rparr>],
      r_tables =
        [\<lparr>table_id = ''table_0_0'', table_bbox = [10, 30, 200, 90], table_html = [],
          table_markdown = [], table_rows_data = [[''1'', ''2'']],
          table_headers = [''A'', ''B''], table_confidence = 0.8,
          table_pageNumber = Some 1, table_rows = Some 1, table_columns = Some 2\<rparr>],
      r_images =
        [\<lparr>image_id = ''img_0_0'', image_bbox = [0, 0, 4, 5],
          image_base64 = ''iVBORw0KGgo='', image_type = ''photo'', image_confidence = 0.8,
          image_pageNumber = Some 1, image_width = Some 4, image_height = Some 5\<rparr>],
      r_formulas = [],
      r_metadata =
        \<lparr>totalPages = Some 2, totalTables = Some 1, totalImages = Some 1,
         totalFormulas = Some 0, textLength = Some 7,
         extractionMethod = Some ''PyMuPDF-basic'', meta_error = None\<rparr>\<rparr>"

text \<open>
  Environments of the model-based server: one whose layout detection raises on the
  file; one page with two formula regions, of height 60 and of height 50, with a formula
  model that raises, and with one that returns.
\<close>

definition corrupt_env :: env where
  "corrupt_env =
     scenario_env\<lparr>layout_model := Some (\<lambda>p. Inl (Exception ''cannot open broken document''))\<rparr>"




definition formula_result :: result where
  "formula_result =
     \<lparr>r_text = [],
      r_pages =
        [\<lparr>pageNumber = 1, page_width = 612, page_height = 792,
          elements =
            [\<lparr>elem_type = ''formula'', elem_bbox = [0, 0, 100, 60], elem_confidence = 0.7,
              elem_content = Some ''x^2''\<rparr>,
             \<lparr>elem_type = ''formula'', elem_bbox = [0, 100, 100, 150], elem_confidence = 0.7,
              elem_content = Some ''x^2''\<rparr>]\<rparr>],
      r_tables = [], r_images = [],
      r_formulas =
        [\<lparr>formula_id = ''formula_1_0_0'', formula_bbox = [0, 0, 100, 60],
          formula_type = ''block'', formula_latex = ''x^2'', formula_confidence = 0.9,
          formula_pageNumber = Some 1\<rparr>,
         \<lparr>formula_id = ''formula_1_0_100'', formula_bbox = [0, 100, 100, 150],
          formula_type = ''inline'', formula_latex = ''x^2'', formula_confidence = 0.9,
          formula_pageNumber = Some 1\<rparr>],
      r_metadata =
        \<lparr>totalPages = Some 1, totalTables = Some 0, totalImages = Some 0,
         totalFormulas = Some 2, textLength = Some 0, extractionMethod = None,
         meta_error = None\<rparr>\<rparr>"

section \<open>Evaluation of the model on the concrete inputs\<close>

declare str_nat.simps [simp del]

lemmas api_defs =
  process_pdf_def process_element_def step_text_def step_table_def step_formula_def
  step_image_def new_elem_def extract_table_def extract_table_try_def extract_formula_def
  extract_formula_try_def extract_image_def extract_image_try_def make_id_def getitem_def
  get_default_def py_int_def str_int_def str_nat.simps digit_char_def count_metadata_def
  empty_metadata_def empty_result_def none_attr_def

lemmas local_defs =
  basic_try_def basic_page_def table_try_def text_elements_def block_elements_def
  strip_def is_space_def str_nat.simps digit_char_def count_metadata_def empty_metadata_def
  empty_result_def minimal_result_def extract_with_basic_tools_def

lemma process_pdf_scenario:
  "process_pdf scenario_env ''a.pdf'' all_flags = Inr scenario_result"
  by (simp add: api_defs scenario_env_def scenario_layout_def all_flags_def scenario_result_def)

lemma basic_try_hello: "basic_try hello_fitz ''a.pdf'' = Inr hello_result"
  by (simp add: local_defs hello_fitz_def hello_page_def blank_page_def hello_result_def)

section \<open>Frame properties of the model-based assembler\<close>

lemma step_text_frame:
  "step_text ev fl p n e st = Inr st' \<Longrightarrow>
     r_pages (fst st') = r_pages (fst st) \<and> r_tables (fst st') = r_tables (fst st) \<and>
     r_images (fst st') = r_images (fst st) \<and> r_formulas (fst st') = r_formulas (fst st) \<and>
     elem_type (snd st') = elem_type (snd st) \<and> elem_bbox (snd st') = elem_bbox (snd st) \<and>
     elem_confidence (snd st') = elem_confidence (snd st)"
  by (auto simp: step_text_def split: if_splits option.splits sum.splits)

lemma step_table_frame:
  "step_table ev fl p n e st = Inr st' \<Longrightarrow>
     r_pages (fst st') = r_pages (fst st) \<and> r_text (fst st') = r_text (fst st) \<and>
     r_images (fst st') = r_images (fst st) \<and> r_formulas (fst st') = r_formulas (fst st) \<and>
     elem_type (snd st') = elem_type (snd st) \<and> elem_bbox (snd st') = elem_bbox (snd st) \<and>
     elem_confidence (snd st') = elem_confidence (snd st)"
  by (auto simp: step_table_def split: if_splits sum.splits)

lemma step_formula_frame:
  "step_formula ev fl p n e st = Inr st' \<Longrightarrow>
     r_pages (fst st') = r_pages (fst st) \<and> r_text (fst st') = r_text (fst st) \<and>
     r_images (fst st') = r_images (fst st) \<and> r_tables (fst st') = r_tables (fst st) \<and>
     elem_type (snd st') = elem_type (snd st) \<and> elem_bbox (snd st') = elem_bbox (snd st) \<and>
     elem_confidence (snd st') = elem_confidence (snd st)"
  by (auto simp: step_formula_def split: if_splits sum.splits)

lemma step_image_frame:
  "step_image ev fl p n e st = Inr st' \<Longrightarrow>
     r_pages (fst st') = r_pages (fst st) \<and> r_text (fst st') = r_text (fst st) \<and>
     r_formulas (fst st') = r_formulas (fst st) \<and> r_tables (fst st') = r_tables (fst st) \<and>
     elem_type (snd st') = elem_type (snd st) \<and> elem_bbox (snd st') = elem_bbox (snd st) \<and>
     elem_confidence (snd st') = elem_confidence (snd st)"
  by (auto simp: step_image_def split: if_splits sum.splits)

lemma process_element_steps:
  assumes "process_element ev fl p n res e = Inr out"
  obtains s1 s2 s3 where
    "step_text ev fl p n e (res, new_elem e) = Inr s1"
    "step_table ev fl p n e s1 = Inr s2"
    "step_formula ev fl p n e s2 = Inr s3"
    "step_image ev fl p n e s3 = Inr out"
  using assms by (auto simp: process_element_def split: sum.splits)

lemma process_element_frame:
  assumes "process_element ev fl p n res e = Inr (res', ed)"
  shows "r_pages res' = r_pages res \<and> elem_core ed = layout_core e"
proof -
  from assms obtain s1 s2 s3 where
    a: "step_text ev fl p n e (res, new_elem e) = Inr s1" and
    b: "step_table ev fl p n e s1 = Inr s2" and
    c: "step_formula ev fl p n e s2 = Inr s3" and
    d: "step_image ev fl p n e s3 = Inr (res', ed)"
    by (rule process_element_steps)
  from step_text_frame[OF a] step_table_frame[OF b] step_formula_frame[OF c]
    step_image_frame[OF d]
  show ?thesis by (simp add: new_elem_def elem_core_def layout_core_def)
qed

lemma process_elements_frame:
  "process_elements ev fl p n es st = Inr st' \<Longrightarrow>
     r_pages (fst st') = r_pages (fst st) \<and>
     map elem_core (snd st') = map elem_core (snd st) @ map layout_core es"
proof (induction es arbitrary: st)
  case Nil
  then show ?case by simp
next
  case (Cons e es)
  from Cons.prems obtain res ed where
    h: "process_element ev fl p n (fst st) e = Inr (res, ed)" and
    r: "process_elements ev fl p n es (res, snd st @ [ed]) = Inr st'"
    by (auto split: sum.splits)
  from process_element_frame[OF h] Cons.IH[OF r] show ?case by simp
qed

lemma process_pages_frame:
  "process_pages ev fl p n lps res = Inr res' \<Longrightarrow>
     map page_core (r_pages res') = map page_core (r_pages res) @ map page_layout_core lps \<and>
     map pageNumber (r_pages res') = map pageNumber (r_pages res) @ [n ..< n + length lps]"
proof (induction lps arbitrary: n res)
  case Nil
  then show ?case by simp
next
  case (Cons pl lps)
  from Cons.prems obtain r1 elems where
    h: "process_elements ev fl p n (pl_elements pl) (res, []) = Inr (r1, elems)" and
    r: "process_pages ev fl p (Suc n) lps
          (r1\<lparr>r_pages := r_pages r1 @ [\<lparr>pageNumber = n, page_width = pl_width pl,
                 page_height = pl_height pl, elements = elems\<rparr>]\<rparr>) = Inr res'"
    by (auto split: sum.splits)
  from process_elements_frame[OF h] Cons.IH[OF r] show ?case
    by (simp add: page_core_def page_layout_core_def upt_rec)
qed

lemma process_pdf_cases:
  assumes "process_pdf ev pdf_path fl = Inr r"
  obtains detect layout_pages res where
    "layout_model ev = Some detect" "detect pdf_path = Inr layout_pages"
    "process_pages ev fl pdf_path 1 layout_pages empty_result = Inr res"
    "r = res\<lparr>r_metadata := count_metadata res None\<rparr>"
  using assms by (auto simp: process_pdf_def split: option.splits sum.splits)

lemma process_pdf_pages:
  assumes "layout_model ev = Some detect" "detect pdf_path = Inr layout_pages"
    "process_pdf ev pdf_path fl = Inr r"
  shows "map page_core (r_pages r) = map page_layout_core layout_pages \<and>
         map pageNumber (r_pages r) = [1 ..< 1 + length layout_pages]"
proof -
  from assms(3) obtain d lps res where
    "layout_model ev = Some d" "d pdf_path = Inr lps"
    and pp: "process_pages ev fl pdf_path 1 lps empty_result = Inr res"
    and r: "r = res\<lparr>r_metadata := count_metadata res None\<rparr>"
    by (rule process_pdf_cases)
  with assms(1,2) have "lps = layout_pages" by simp
  with process_pages_frame[OF pp] r show ?thesis by (simp add: empty_result_def)
qed

section \<open>Metadata\<close>

text \<open>
  C1. When \<^verbatim>\<open>process_pdf\<close> returns, and when the body of \<^verbatim>\<open>extract_with_basic_tools\<close>
  runs to its end, the five counts of the metadata are the lengths of the pages, tables,
  images and formulas collections and of the text of the returned result: they are
  written once, after the loop, from the collections themselves.
\<close>

theorem metadata_counts_collections:
  "(process_pdf ev pdf_path fl = Inr r \<longrightarrow>
      totalPages (r_metadata r) = Some (length (r_pages r)) \<and>
      totalTables (r_metadata r) = Some (length (r_tables r)) \<and>
      totalImages (r_metadata r) = Some (length (r_images r)) \<and>
      totalFormulas (r_metadata r) = Some (length (r_formulas r)) \<and>
      textLength (r_metadata r) = Some (length (r_text r))) \<and>
   (basic_try fitz_open pdf_path' = Inr r' \<longrightarrow>
      extract_with_basic_tools fitz_open pdf_path' = r' \<and>
      totalPages (r_metadata r') = Some (length (r_pages r')) \<and>
      totalTables (r_metadata r') = Some (length (r_tables r')) \<and>
      totalImages (r_metadata r') = Some (length (r_images r')) \<and>
      totalFormulas (r_metadata r') = Some (length (r_formulas r')) \<and>
      textLength (r_metadata r') = Some (length (r_text r')))"
proof (intro conjI impI)
  assume a: "process_pdf ev pdf_path fl = Inr r"
  then obtain res where r: "r = res\<lparr>r_metadata := count_metadata res None\<rparr>"
    by (rule process_pdf_cases)
  show "totalPages (r_metadata r) = Some (length (r_pages r))"
    by (simp add: r count_metadata_def)
  show "totalTables (r_metadata r) = Some (length (r_tables r))"
    by (simp add: r count_metadata_def)
  show "totalImages (r_metadata r) = Some (length (r_images r))"
    by (simp add: r count_metadata_def)
  show "totalFormulas (r_metadata r) = Some (length (r_formulas r))"
    by (simp add: r count_metadata_def)
  show "textLength (r_metadata r) = Some (length (r_text r))"
    by (simp add: r count_metadata_def)
next
  assume b: "basic_try fitz_open pdf_path' = Inr r'"
  then obtain res where r: "r' = res\<lparr>r_metadata := count_metadata res (Some ''PyMuPDF-basic'')\<rparr>"
    by (auto simp: basic_try_def split: sum.splits)
  show "extract_with_basic_tools fitz_open pdf_path' = r'"
    by (simp add: extract_with_basic_tools_def b)
  show "totalPages (r_metadata r') = Some (length (r_pages r'))"
    by (simp add: r count_metadata_def)
  show "totalTables (r_metadata r') = Some (length (r_tables r'))"
    by (simp add: r count_metadata_def)
  show "totalImages (r_metadata r') = Some (length (r_images r'))"
    by (simp add: r count_metadata_def)
  show "totalFormulas (r_metadata r') = Some (length (r_formulas r'))"
    by (simp add: r count_metadata_def)
  show "textLength (r_metadata r') = Some (length (r_text r'))"
    by (simp add: r count_metadata_def)
qed

theorem metadata_counts_collections_witness:
  "process_pdf scenario_env ''a.pdf'' all_flags = Inr scenario_result \<and>
   totalPages (r_metadata scenario_result) = Some (length (r_pages scenario_result)) \<and>
   totalTables (r_metadata scenario_result) = Some (length (r_tables scenario_result)) \<and>
   textLength (r_metadata scenario_result) = Some (length (r_text scenario_result)) \<and>
   basic_try hello_fitz ''a.pdf'' = Inr hello_result \<and>
   extract_with_basic_tools hello_fitz ''a.pdf'' = hello_result \<and>
   totalPages (r_metadata hello_result) = Some (length (r_pages hello_result)) \<and>
   totalImages (r_metadata hello_result) = Some (length (r_images hello_result)) \<and>
   textLength (r_metadata hello_result) = Some (length (r_text hello_result))"
  using metadata_counts_collections [of scenario_env "''a.pdf''" all_flags scenario_result
      hello_fitz "''a.pdf''" hello_result]
    process_pdf_scenario basic_try_hello
  by simp

section \<open>Elements recorded per page\<close>




section \<open>The two strategies of the local server\<close>

text \<open>
  C9. In the local server the model-based strategy returns, for every path, exactly what
  the basic strategy returns, so \<^verbatim>\<open>extract_document\<close> answers the same whether
  \<^verbatim>\<open>models_loaded\<close> is set or not. (The only difference of the source is one log line.)
\<close>

theorem kit_strategy_is_basic_strategy:
  "extract_with_pdf_extract_kit fitz_open pdf_path = extract_with_basic_tools fitz_open pdf_path \<and>
   extract_document fitz_open True fl pdf_path = extract_document fitz_open False fl pdf_path"
  by (simp add: extract_with_pdf_extract_kit_def extract_document_def)

section \<open>Images and the extraction flags\<close>

lemma process_element_images_disabled:
  assumes off: "\<not> extract_images fl"
    and run: "process_element ev fl p n res e = Inr (res', ed)"
  shows "r_images res' = r_images res \<and>
         (elem_type ed \<in> {''image'', ''figure''} \<longrightarrow> elem_content ed = None)"
proof -
  from run obtain s1 s2 s3 where
    a: "step_text ev fl p n e (res, new_elem e) = Inr s1" and
    b: "step_table ev fl p n e s1 = Inr s2" and
    c: "step_formula ev fl p n e s2 = Inr s3" and
    d: "step_image ev fl p n e s3 = Inr (res', ed)"
    by (rule process_element_steps)
  from d off have s3: "s3 = (res', ed)" by (simp add: step_image_def)
  have ty: "elem_type ed = le_type e"
    using process_element_frame[OF run] by (simp add: elem_core_def layout_core_def)
  have imgs: "r_images res' = r_images res"
    using step_text_frame[OF a] step_table_frame[OF b] step_formula_frame[OF c] s3 by simp
  have "elem_content ed = None" if img: "le_type e \<in> {''image'', ''figure''}"
  proof -
    from img a have "s1 = (res, new_elem e)" by (auto simp: step_text_def)
    moreover from img b have "s2 = s1" by (auto simp: step_table_def)
    moreover from img c have "s3 = s2" by (auto simp: step_formula_def)
    ultimately show ?thesis using s3 by (simp add: new_elem_def)
  qed
  with ty imgs show ?thesis by simp
qed

lemma process_elements_images_disabled:
  "\<not> extract_images fl \<Longrightarrow> process_elements ev fl p n es st = Inr st' \<Longrightarrow>
   \<forall>x\<in>set (snd st). elem_type x \<in> {''image'', ''figure''} \<longrightarrow> elem_content x = None \<Longrightarrow>
     r_images (fst st') = r_images (fst st) \<and>
     (\<forall>x\<in>set (snd st'). elem_type x \<in> {''image'', ''figure''} \<longrightarrow> elem_content x = None)"
proof (induction es arbitrary: st)
  case Nil
  then show ?case by simp
next
  case (Cons e es)
  from Cons.prems(2) obtain res ed where
    h: "process_element ev fl p n (fst st) e = Inr (res, ed)" and
    r: "process_elements ev fl p n es (res, snd st @ [ed]) = Inr st'"
    by (auto split: sum.splits)
  note one = process_element_images_disabled[OF Cons.prems(1) h]
  have "\<forall>x\<in>set (snd (res, snd st @ [ed])).
          elem_type x \<in> {''image'', ''figure''} \<longrightarrow> elem_content x = None"
    using one Cons.prems(3) by auto
  from Cons.IH[OF Cons.prems(1) r this] one show ?case by simp
qed

lemma process_pages_images_disabled:
  "\<not> extract_images fl \<Longrightarrow> process_pages ev fl p n lps res = Inr res' \<Longrightarrow>
   \<forall>pd\<in>set (r_pages res). \<forall>x\<in>set (elements pd).
      elem_type x \<in> {''image'', ''figure''} \<longrightarrow> elem_content x = None \<Longrightarrow>
     r_images res' = r_images res \<and>
     (\<forall>pd\<in>set (r_pages res'). \<forall>x\<in>set (elements pd).
        elem_type x \<in> {''image'', ''figure''} \<longrightarrow> elem_content x = None)"
proof (induction lps arbitrary: n res)
  case Nil
  then show ?case by simp
next
  case (Cons pl lps)
  from Cons.prems(2) obtain r1 elems where
    h: "process_elements ev fl p n (pl_elements pl) (res, []) = Inr (r1, elems)" and
    r: "process_pages ev fl p (Suc n) lps
          (r1\<lparr>r_pages := r_pages r1 @ [\<lparr>pageNumber = n, page_width = pl_width pl,
                 page_height = pl_height pl, elements = elems\<rparr>]\<rparr>) = Inr res'"
    by (auto split: sum.splits)
  have one: "r_images r1 = r_images res \<and>
      (\<forall>x\<in>set elems. elem_type x \<in> {''image'', ''figure''} \<longrightarrow> elem_content x = None)"
    using process_elements_images_disabled[OF Cons.prems(1) h] by simp
  have pg: "r_pages r1 = r_pages res"
    using process_elements_frame[OF h] by simp
  have "\<forall>pd\<in>set (r_pages (r1\<lparr>r_pages := r_pages r1 @ [\<lparr>pageNumber = n,
            page_width = pl_width pl, page_height = pl_height pl, elements = elems\<rparr>]\<rparr>)).
          \<forall>x\<in>set (elements pd). elem_type x \<in> {''image'', ''figure''} \<longrightarrow> elem_content x = None"
    using one pg Cons.prems(3) by auto
  from Cons.IH[OF Cons.prems(1) r this] one show ?case by simp
qed

text \<open>
  In the model-based server the property holds: with \<^verbatim>\<open>extract_images\<close> off no image
  is collected and no image or figure element carries content.
\<close>

lemma process_pdf_images_disabled:
  assumes "\<not> extract_images fl" and "process_pdf ev pdf_path fl = Inr r"
  shows "r_images r = [] \<and>
         (\<forall>pd\<in>set (r_pages r). \<forall>x\<in>set (elements pd).
            elem_type x \<in> {''image'', ''figure''} \<longrightarrow> elem_content x = None)"
proof -
  from assms(2) obtain lps res where
    pp: "process_pages ev fl pdf_path 1 lps empty_result = Inr res" and
    r: "r = res\<lparr>r_metadata := count_metadata res None\<rparr>"
    by (rule process_pdf_cases)
  have "\<forall>pd\<in>set (r_pages empty_result). \<forall>x\<in>set (elements pd).
      elem_type x \<in> {''image'', ''figure''} \<longrightarrow> elem_content x = None"
    by (simp add: empty_result_def)
  from process_pages_images_disabled[OF assms(1) pp this] r show ?thesis
    by (simp add: empty_result_def)
qed

text \<open>
  C5, at the local server. \<^verbatim>\<open>extract_document\<close> reads \<^verbatim>\<open>extract_images\<close> from the form
  and never passes it on: for the document with one RGB image on page 1 and the flag off,
  the answer still holds the image in \<open>images\<close> and the content \<open>Image\<close> on the image
  element, under either strategy.
\<close>

theorem local_server_ignores_extract_images:
  "extract_images no_images_flags = False \<and>
   extract_document hello_fitz False no_images_flags ''a.pdf'' = Json200 hello_result \<and>
   extract_document hello_fitz True no_images_flags ''a.pdf'' = Json200 hello_result \<and>
   map image_id (r_images hello_result) = [''img_0_0''] \<and>
   map (\<lambda>x. (elem_type x, elem_content x)) (elements (r_pages hello_result ! 0)) =
     [(''text'', Some ''Hello''), (''image'', Some ''Image''),
      (''table'', Some ''Table with 1 rows'')]"
  using basic_try_hello
  by (simp add: extract_document_def extract_with_pdf_extract_kit_def
      extract_with_basic_tools_def no_images_flags_def all_flags_def hello_result_def)

section \<open>The region extractors\<close>

lemma make_id_two:
  "2 \<le> length b \<Longrightarrow>
     make_id kind n b =
       Inr (kind @ ''_'' @ str_nat n @ ''_'' @ str_int (py_int (b ! 0)) @ ''_''
            @ str_int (py_int (b ! 1)))"
  by (auto simp: make_id_def getitem_def)


text \<open>
  The three guarded extractors return for every bounding box of at least two
  coordinates, whatever their model does, and hand back the placeholder when the body
  of their \<^verbatim>\<open>try\<close> raised.
\<close>

lemma extract_table_guarded:
  assumes "2 \<le> length b"
  shows "(\<exists>t. extract_table ev p n b = Inr t) \<and>
         (\<forall>e. extract_table_try ev p n b = Inl e \<longrightarrow>
            extract_table ev p n b =
              Inr \<lparr>table_id = ''table_'' @ str_nat n @ ''_'' @ str_int (py_int (b ! 0)) @ ''_''
                       @ str_int (py_int (b ! 1)),
                   table_bbox = b, table_html = [], table_markdown = [],
                   table_rows_data = [], table_headers = [], table_confidence = 0,
                   table_pageNumber = None, table_rows = None, table_columns = None\<rparr>)"
  using assms by (auto simp: extract_table_def make_id_two split: sum.splits)

lemma extract_formula_guarded:
  assumes "2 \<le> length b"
  shows "(\<exists>f. extract_formula ev p n b = Inr f) \<and>
         (\<forall>e. extract_formula_try ev p n b = Inl e \<longrightarrow>
            extract_formula ev p n b =
              Inr \<lparr>formula_id = ''formula_'' @ str_nat n @ ''_'' @ str_int (py_int (b ! 0))
                       @ ''_'' @ str_int (py_int (b ! 1)),
                   formula_bbox = b, formula_type = ''unknown'', formula_latex = [],
                   formula_confidence = 0, formula_pageNumber = None\<rparr>)"
  using assms by (auto simp: extract_formula_def make_id_two split: sum.splits)

lemma extract_image_guarded:
  assumes "2 \<le> length b"
  shows "(\<exists>i. extract_image ev p n b = Inr i) \<and>
         (\<forall>e. extract_image_try ev p n b = Inl e \<longrightarrow>
            extract_image ev p n b =
              Inr \<lparr>image_id = ''image_'' @ str_nat n @ ''_'' @ str_int (py_int (b ! 0))
                       @ ''_'' @ str_int (py_int (b ! 1)),
                   image_bbox = b, image_base64 = [], image_type = ''unknown'',
                   image_confidence = 0, image_pageNumber = None, image_width = None,
                   image_height = None\<rparr>)"
  using assms by (auto simp: extract_image_def make_id_two split: sum.splits)

text \<open>
  C3, at the text region. The OCR call of \<^verbatim>\<open>process_pdf\<close> stands outside any
  \<^verbatim>\<open>try\<close> of its own: in the two-page scenario with an OCR model that raises, the
  exception leaves \<^verbatim>\<open>process_pdf\<close> and no document is assembled.
\<close>

theorem text_region_failure_aborts_document:
  "step_text ocr_failing_env all_flags ''a.pdf'' 1
     \<lparr>le_type = ''text'', le_bbox = [0, 0, 100, 20], le_confidence = Some 0.9\<rparr>
     (empty_result, new_elem \<lparr>le_type = ''text'', le_bbox = [0, 0, 100, 20],
                               le_confidence = Some 0.9\<rparr>)
     = Inl (Exception ''ocr failed'') \<and>
   process_pdf ocr_failing_env ''a.pdf'' all_flags = Inl (Exception ''ocr failed'')"
  by (simp add: api_defs ocr_failing_env_def scenario_env_def scenario_layout_def all_flags_def)

section \<open>Documents that cannot be opened\<close>

text \<open>
  C2 as stated fails at the local server: for a file that PyMuPDF cannot open,
  \<^verbatim>\<open>extract_document\<close> answers with status 200 and a document with the text
  \<open>Extraction failed\<close>, no pages and no entities.
\<close>

theorem corrupt_input_answered_as_document:
  "corrupt_fitz ''a.pdf'' = Inl (Exception ''cannot open broken document'') \<and>
   extract_document corrupt_fitz False all_flags ''a.pdf'' =
     Json200 \<lparr>r_text = ''Extraction failed'', r_pages = [], r_tables = [], r_images = [],
              r_formulas = [],
              r_metadata =
                \<lparr>totalPages = None, totalTables = None, totalImages = None,
                 totalFormulas = None, textLength = None, extractionMethod = None,
                 meta_error = Some ''cannot open broken document''\<rparr>\<rparr>"
  by (simp add: extract_document_def extract_with_basic_tools_def basic_try_def
      corrupt_fitz_def minimal_result_def empty_metadata_def)

text \<open>
  C2, amended. In the model-based server an exception of the layout detection is the
  exception of \<^verbatim>\<open>process_pdf\<close>: no result is built. In the local server
  \<^verbatim>\<open>extract_with_basic_tools\<close> does not raise: when the file cannot be opened it returns
  the minimal result (text \<open>Extraction failed\<close>, no pages, tables, images or formulas, and
  a metadata block holding only the message of the exception), and \<^verbatim>\<open>extract_document\<close>
  answers it with status 200 under either strategy.
\<close>

theorem unreadable_document_outcomes:
  "(layout_model ev = Some detect \<and> detect pdf_path = Inl e \<longrightarrow>
      process_pdf ev pdf_path fl = Inl e) \<and>
   (fitz_open pdf_path' = Inl e' \<longrightarrow>
      extract_with_basic_tools fitz_open pdf_path' =
        \<lparr>r_text = ''Extraction failed'', r_pages = [], r_tables = [], r_images = [],
         r_formulas = [],
         r_metadata =
           \<lparr>totalPages = None, totalTables = None, totalImages = None,
            totalFormulas = None, textLength = None, extractionMethod = None,
            meta_error = Some (str_error e')\<rparr>\<rparr> \<and>
      extract_document fitz_open models_loaded fl' pdf_path' =
        Json200 (extract_with_basic_tools fitz_open pdf_path'))"
  by (simp add: process_pdf_def extract_document_def extract_with_pdf_extract_kit_def
      extract_with_basic_tools_def basic_try_def minimal_result_def empty_metadata_def)

theorem unreadable_document_outcomes_witness:
  "layout_model corrupt_env = Some (\<lambda>p. Inl (Exception ''cannot open broken document'')) \<and>
   process_pdf corrupt_env ''a.pdf'' all_flags = Inl (Exception ''cannot open broken document'') \<and>
   corrupt_fitz ''a.pdf'' = Inl (Exception ''cannot open broken document'') \<and>
   r_text (extract_with_basic_tools corrupt_fitz ''a.pdf'') = ''Extraction failed'' \<and>
   r_pages (extract_with_basic_tools corrupt_fitz ''a.pdf'') = [] \<and>
   meta_error (r_metadata (extract_with_basic_tools corrupt_fitz ''a.pdf'')) =
     Some ''cannot open broken document''"
proof -
  have a: "layout_model corrupt_env = Some (\<lambda>p. Inl (Exception ''cannot open broken document''))"
    by (simp add: corrupt_env_def scenario_env_def)
  have b: "corrupt_fitz ''a.pdf'' = Inl (Exception ''cannot open broken document'')"
    by (simp add: corrupt_fitz_def)
  from unreadable_document_outcomes [of corrupt_env
      "\<lambda>p. Inl (Exception ''cannot open broken document'')" "''a.pdf''"
      "Exception ''cannot open broken document''" all_flags corrupt_fitz "''a.pdf''"
      "Exception ''cannot open broken document''" False all_flags] a b
  show ?thesis by simp
qed

section \<open>Entities collected by the model-based assembler\<close>








section \<open>The kind of a formula\<close>






section \<open>Identifiers\<close>




lemma basic_page_cases:
  assumes "basic_page p loaded res = Inr res'"
  obtains page ptext blocks image_list imgs elems1 tbls where
    "loaded = Inr page" "pg_get_text page = Inr ptext" "pg_blocks page = Inr blocks"
    "pg_images page = Inr image_list"
    "image_loop p 0 image_list (r_images res, text_elements blocks) = Inr (imgs, elems1)"
    "pg_tables page = Inr tbls"
    "res' = res\<lparr>r_text := r_text res @ ptext @ [CHR 0x0A],
                 r_images := imgs,
                 r_tables := fst (table_loop p 0 tbls (r_tables res, elems1)),
                 r_pages := r_pages res
                   @ [\<lparr>pageNumber = p + 1, page_width = pg_rect_width page,
                        page_height = pg_rect_height page,
                        elements = snd (table_loop p 0 tbls (r_tables res, elems1))\<rparr>]\<rparr>"
  using assms
  by (auto simp: basic_page_def Let_def split: sum.splits prod.splits)














section \<open>Text elements\<close>












section \<open>A page that fails\<close>

lemma process_pages_append:
  "process_pages ev fl p n (xs @ ys) res =
     (case process_pages ev fl p n xs res of
        Inl e \<Rightarrow> Inl e
      | Inr r \<Rightarrow> process_pages ev fl p (n + length xs) ys r)"
  by (induction xs arbitrary: n res) (auto split: sum.splits)

lemma basic_pages_append:
  "basic_pages n (xs @ ys) res =
     (case basic_pages n xs res of
        Inl e \<Rightarrow> Inl e
      | Inr r \<Rightarrow> basic_pages (n + length xs) ys r)"
  by (induction xs arbitrary: n res) (auto split: sum.splits)

lemma basic_pages_length:
  "basic_pages n doc res = Inr res' \<Longrightarrow>
     map pageNumber (r_pages res') = map pageNumber (r_pages res) @ [n + 1 ..< n + 1 + length doc]"
proof (induction doc arbitrary: n res)
  case Nil
  then show ?case by simp
next
  case (Cons loaded doc)
  from Cons.prems obtain r1 where
    h: "basic_page n loaded res = Inr r1" and
    r: "basic_pages (Suc n) doc r1 = Inr res'"
    by (auto split: sum.splits)
  from h have "map pageNumber (r_pages r1) = map pageNumber (r_pages res) @ [n + 1]"
    by (rule basic_page_cases) simp
  with Cons.IH[OF r] show ?case by (simp add: upt_rec)
qed

text \<open>
  C4 as stated fails: in the local server a document of two pages whose second page
  cannot be loaded is answered with the minimal result, which has no pages at all and
  no \<open>totalPages\<close>; the first page, which did not fail, is lost with it.
\<close>

theorem failing_page_drops_all_pages:
  "page_failing_fitz ''a.pdf'' = Inr [Inr hello_page, Inl (Exception ''bad page'')] \<and>
   extract_with_basic_tools page_failing_fitz ''a.pdf'' =
     \<lparr>r_text = ''Extraction failed'', r_pages = [], r_tables = [], r_images = [],
      r_formulas = [],
      r_metadata =
        \<lparr>totalPages = None, totalTables = None, totalImages = None, totalFormulas = None,
         textLength = None, extractionMethod = None, meta_error = Some ''bad page''\<rparr>\<rparr>"
  by (simp add: local_defs page_failing_fitz_def hello_page_def)

text \<open>
  C4, amended. When the processing of some page raises, no page is emitted: in the
  model-based server \<^verbatim>\<open>process_pdf\<close> re-raises the exception, and in the local server
  \<^verbatim>\<open>extract_with_basic_tools\<close> returns the minimal result, with no pages and no
  \<open>totalPages\<close>. When no page raises, so that the extraction runs to its end, the
  result has one page per page of the input, numbered from 1, and \<open>totalPages\<close> is the
  number of pages of the input.
\<close>

theorem page_failure_outcomes:
  "(layout_model ev = Some detect \<and> detect pdf_path = Inr (pre @ pl # post) \<and>
    process_pages ev fl pdf_path 1 pre empty_result = Inr res1 \<and>
    process_elements ev fl pdf_path (1 + length pre) (pl_elements pl) (res1, []) = Inl e \<longrightarrow>
      process_pdf ev pdf_path fl = Inl e) \<and>
   (fitz_open pdf_path' = Inr (pre' @ loaded # post') \<and>
    basic_pages 0 pre' empty_result = Inr res1' \<and>
    basic_page (length pre') loaded res1' = Inl e' \<longrightarrow>
      extract_with_basic_tools fitz_open pdf_path' =
        \<lparr>r_text = ''Extraction failed'', r_pages = [], r_tables = [], r_images = [],
         r_formulas = [],
         r_metadata =
           \<lparr>totalPages = None, totalTables = None, totalImages = None,
            totalFormulas = None, textLength = None, extractionMethod = None,
            meta_error = Some (str_error e')\<rparr>\<rparr>) \<and>
   (layout_model ev = Some detect \<and> detect pdf_path = Inr layout_pages \<and>
    process_pdf ev pdf_path fl = Inr r \<longrightarrow>
      map pageNumber (r_pages r) = [1 ..< 1 + length layout_pages] \<and>
      totalPages (r_metadata r) = Some (length layout_pages)) \<and>
   (fitz_open pdf_path' = Inr doc \<and> basic_try fitz_open pdf_path' = Inr r' \<longrightarrow>
      map pageNumber (r_pages r') = [1 ..< 1 + length doc] \<and>
      totalPages (r_metadata r') = Some (length doc))"
proof (intro conjI impI)
  assume "layout_model ev = Some detect \<and> detect pdf_path = Inr (pre @ pl # post) \<and>
    process_pages ev fl pdf_path 1 pre empty_result = Inr res1 \<and>
    process_elements ev fl pdf_path (1 + length pre) (pl_elements pl) (res1, []) = Inl e"
  then show "process_pdf ev pdf_path fl = Inl e"
    by (simp add: process_pdf_def process_pages_append)
next
  assume "fitz_open pdf_path' = Inr (pre' @ loaded # post') \<and>
    basic_pages 0 pre' empty_result = Inr res1' \<and>
    basic_page (length pre') loaded res1' = Inl e'"
  then show "extract_with_basic_tools fitz_open pdf_path' =
        \<lparr>r_text = ''Extraction failed'', r_pages = [], r_tables = [], r_images = [],
         r_formulas = [],
         r_metadata =
           \<lparr>totalPages = None, totalTables = None, totalImages = None,
            totalFormulas = None, textLength = None, extractionMethod = None,
            meta_error = Some (str_error e')\<rparr>\<rparr>"
    by (simp add: extract_with_basic_tools_def basic_try_def basic_pages_append
        minimal_result_def empty_metadata_def)
next
  assume h: "layout_model ev = Some detect \<and> detect pdf_path = Inr layout_pages \<and>
    process_pdf ev pdf_path fl = Inr r"
  then have pn: "map pageNumber (r_pages r) = [1 ..< 1 + length layout_pages]"
    using process_pdf_pages[of ev detect pdf_path layout_pages fl r] by simp
  then show "map pageNumber (r_pages r) = [1 ..< 1 + length layout_pages]" .
  from pn have "length (map pageNumber (r_pages r)) = length [1 ..< 1 + length layout_pages]"
    by (rule arg_cong)
  then have len: "length (r_pages r) = length layout_pages"
    by (simp only: length_map length_upt add_diff_cancel_left')
  from h obtain res where "r = res\<lparr>r_metadata := count_metadata res None\<rparr>"
    by (auto elim: process_pdf_cases)
  with len show "totalPages (r_metadata r) = Some (length layout_pages)"
    by (simp add: count_metadata_def)
next
  assume h: "fitz_open pdf_path' = Inr doc \<and> basic_try fitz_open pdf_path' = Inr r'"
  then obtain res where
    bp: "basic_pages 0 doc empty_result = Inr res" and
    r: "r' = res\<lparr>r_metadata := count_metadata res (Some ''PyMuPDF-basic'')\<rparr>"
    by (auto simp: basic_try_def split: sum.splits)
  from basic_pages_length[OF bp] r
  have pn: "map pageNumber (r_pages r') = [1 ..< 1 + length doc]"
    by (simp add: empty_result_def)
  then show "map pageNumber (r_pages r') = [1 ..< 1 + length doc]" .
  from pn have "length (map pageNumber (r_pages r')) = length [1 ..< 1 + length doc]"
    by (rule arg_cong)
  then have "length (r_pages r') = length doc"
    by (simp only: length_map length_upt add_diff_cancel_left')
  with r show "totalPages (r_metadata r') = Some (length doc)"
    by (simp add: count_metadata_def)
qed

theorem page_failure_outcomes_witness:
  "layout_model ocr_failing_env = Some (\<lambda>p. Inr scenario_layout) \<and>
   process_pdf ocr_failing_env ''a.pdf'' all_flags = Inl (Exception ''ocr failed'') \<and>
   page_failing_fitz ''a.pdf'' = Inr ([Inr hello_page] @ Inl (Exception ''bad page'') # []) \<and>
   r_pages (extract_with_basic_tools page_failing_fitz ''a.pdf'') = [] \<and>
   totalPages (r_metadata (extract_with_basic_tools page_failing_fitz ''a.pdf'')) = None \<and>
   process_pdf scenario_env ''a.pdf'' all_flags = Inr scenario_result \<and>
   totalPages (r_metadata scenario_result) = Some (length scenario_layout) \<and>
   basic_try hello_fitz ''a.pdf'' = Inr hello_result \<and>
   map pageNumber (r_pages hello_result) = [1, 2] \<and>
   totalPages (r_metadata hello_result) = Some 2"
proof -
  have a1: "layout_model ocr_failing_env = Some (\<lambda>p. Inr scenario_layout)"
    by (simp add: ocr_failing_env_def scenario_env_def)
  have a2: "(\<lambda>p. Inr scenario_layout :: error + page_layout list) ''a.pdf'' =
      Inr ([] @ hd scenario_layout # tl scenario_layout)"
    by (simp add: scenario_layout_def)
  have a3: "process_pages ocr_failing_env all_flags ''a.pdf'' 1 [] empty_result = Inr empty_result"
    by simp
  have a4: "process_elements ocr_failing_env all_flags ''a.pdf'' (1 + length ([] :: page_layout list))
      (pl_elements (hd scenario_layout)) (empty_result, []) = Inl (Exception ''ocr failed'')"
    by (simp add: api_defs ocr_failing_env_def scenario_env_def scenario_layout_def
        all_flags_def)
  have b1: "page_failing_fitz ''a.pdf'' =
      Inr ([Inr hello_page] @ Inl (Exception ''bad page'') # [])"
    by (simp add: page_failing_fitz_def)
  obtain res1 where b2: "basic_pages 0 [Inr hello_page] empty_result = Inr res1"
    by (simp add: local_defs hello_page_def)
  have b3: "basic_page (length [Inr hello_page :: error + fitz_page])
      (Inl (Exception ''bad page'')) res1 = Inl (Exception ''bad page'')"
    by (simp add: basic_page_def)
  have c1: "layout_model scenario_env = Some (\<lambda>p. Inr scenario_layout)"
    by (simp add: scenario_env_def)
  have d1: "hello_fitz ''a.pdf'' = Inr [Inr hello_page, Inr blank_page]"
    by (simp add: hello_fitz_def)
  from page_failure_outcomes [of ocr_failing_env "\<lambda>p. Inr scenario_layout" "''a.pdf''" "[]"
      "hd scenario_layout" "tl scenario_layout" all_flags empty_result
      "Exception ''ocr failed''" page_failing_fitz "''a.pdf''" "[Inr hello_page]"
      "Inl (Exception ''bad page'')" "[]" res1 "Exception ''bad page''"]
    a1 a2 a3 a4 b1 b2 b3
  have first: "process_pdf ocr_failing_env ''a.pdf'' all_flags = Inl (Exception ''ocr failed'') \<and>
      r_pages (extract_with_basic_tools page_failing_fitz ''a.pdf'') = [] \<and>
      totalPages (r_metadata (extract_with_basic_tools page_failing_fitz ''a.pdf'')) = None"
    by simp
  from page_failure_outcomes [of scenario_env "\<lambda>p. Inr scenario_layout" "''a.pdf''" "[]"
      "hd scenario_layout" "tl scenario_layout" all_flags empty_result
      "Exception ''none''" hello_fitz "''a.pdf''" "[]" "Inr hello_page" "[Inr blank_page]"
      empty_result "Exception ''none''" scenario_layout scenario_result
      "[Inr hello_page, Inr blank_page]" hello_result]
    c1 d1 process_pdf_scenario basic_try_hello
  have second: "totalPages (r_metadata scenario_result) = Some (length scenario_layout) \<and>
      map pageNumber (r_pages hello_result) = [1, 2] \<and>
      totalPages (r_metadata hello_result) = Some 2"
    by (simp add: upt_rec)
  from a1 b1 first second process_pdf_scenario basic_try_hello show ?thesis by simp
qed

end
